theory Spec2Isabelle
  imports Complex_Main
begin

section \<open>Habit tracker: the store and its operations (database.py)\<close>

text \<open>
  The class \<open>Database\<close> keeps two SQLite tables, \<open>habits\<close> and \<open>deadlines\<close>, and offers
  habit creation, listing, deletion, check-off and two analytics (longest streak and
  success rate).  The embedding follows the Python text method by method.

  Conventions of the model:
  \<^item> A \<open>datetime\<close> is an \<open>int\<close>, the number of microseconds since 1970-01-01 00:00:00 (the
    resolution of Python's \<open>datetime\<close>).  Python's calendar runs from year 1 to year 9999;
    \<open>timedelta\<close> and the arithmetic on \<open>datetime\<close> check their ranges and raise
    \<open>OverflowError\<close>, and so do they here.
  \<^item> A date string \<open>YYYY-MM-DD\<close> is the number of its day, counted from 1970-01-01;
    parsing it yields midnight of that day, formatting an instant yields the day the
    instant falls in.  A day number outside the calendar stands for a string that
    \<open>strptime\<close> rejects.
  \<^item> A table is the list of its rows in rowid order, which is the order a \<open>SELECT\<close>
    without \<open>ORDER BY\<close> scans it.  The state is the view of the one connection the
    object holds; an exception leaves behind what was executed before it.
  \<^item> An integer bound to a parameter of a statement must fit SQLite's 64-bit INTEGER;
    \<open>sqlite3\<close> raises \<open>OverflowError\<close> otherwise.
  \<^item> Every place where the Python raises is a branch returning the exception.
\<close>

subsection \<open>Exceptions\<close>

datatype error = ZeroDivisionError | UnboundLocalError | OverflowError | ValueError

subsection \<open>Time\<close>

type_synonym instant = int
type_synonym date = int

definition us_per_day :: int where
  "us_per_day = 86400000000"

text \<open>
  \<open>datetime.min\<close> is 0001-01-01 00:00:00, day \<open>-719162\<close>; \<open>datetime.max\<close> is 9999-12-31
  23:59:59.999999, the last microsecond of day 2932896.
\<close>

definition datetime_min :: instant where
  "datetime_min = - 719162 * us_per_day"

definition datetime_max :: instant where
  "datetime_max = 2932897 * us_per_day - 1"

text \<open>\<open>timedelta(days=n)\<close> raises when the magnitude of \<open>n\<close> exceeds 999999999.\<close>

definition timedelta :: "int \<Rightarrow> error + int" where
  "timedelta days =
     (if - 999999999 \<le> days \<and> days \<le> 999999999 then Inr (days * us_per_day)
      else Inl OverflowError)"

text \<open>\<open>datetime + timedelta\<close> and \<open>datetime - timedelta\<close> raise when the result leaves the calendar.\<close>

definition datetime_add :: "instant \<Rightarrow> int \<Rightarrow> error + instant" where
  "datetime_add t delta =
     (if datetime_min \<le> t + delta \<and> t + delta \<le> datetime_max then Inr (t + delta)
      else Inl OverflowError)"

definition datetime_sub :: "instant \<Rightarrow> int \<Rightarrow> error + instant" where
  "datetime_sub t delta =
     (if datetime_min \<le> t - delta \<and> t - delta \<le> datetime_max then Inr (t - delta)
      else Inl OverflowError)"

definition strptime_date :: "date \<Rightarrow> error + instant" where
  "strptime_date d =
     (if - 719162 \<le> d \<and> d \<le> 2932896 then Inr (d * us_per_day) else Inl ValueError)"

definition strftime_date :: "instant \<Rightarrow> date" where
  "strftime_date t = t div us_per_day"

subsection \<open>Tables\<close>

text \<open>
  The columns of \<open>habits\<close> are id, task, period, start\_date, duration; those of
  \<open>deadlines\<close> are id, task, from\_date, to\_date, checked\_off, completion\_date (columns 0
  to 5 of a fetched row).  \<open>checked_off\<close> is an INTEGER column, so it is an \<open>int\<close> here;
  \<open>completion_date\<close> may be NULL.  Both ids are \<open>AUTOINCREMENT\<close> keys: a new row gets
  one more than the largest id the table ever used, which the state records.
\<close>

record habit_row =
  h_id :: nat
  h_task :: string
  h_period :: int
  h_start_date :: date
  h_duration :: int

record deadline_row =
  d_id :: nat
  d_task :: string
  d_from_date :: instant
  d_to_date :: instant
  d_checked_off :: int
  d_completion_date :: "instant option"

record database =
  habits :: "habit_row list"
  deadlines :: "deadline_row list"
  habits_seq :: nat
  deadlines_seq :: nat

text \<open>The state after \<open>create_tables\<close> on a fresh file.\<close>

definition create_tables :: database where
  "create_tables = \<lparr>habits = [], deadlines = [], habits_seq = 0, deadlines_seq = 0\<rparr>"

text \<open>An integer that \<open>sqlite3\<close> can bind to a parameter.\<close>

definition sqlite_int :: "int \<Rightarrow> bool" where
  "sqlite_int n = (- 9223372036854775808 \<le> n \<and> n \<le> 9223372036854775807)"

subsection \<open>The queries of \<open>db_search\<close>\<close>

text \<open>
  \<open>db_search\<close> builds \<open>SELECT * FROM table addon\<close>.  It is called with three shapes:
  all habits, the habits of one period, and the deadlines of one task.
\<close>

definition db_search_habits :: "database \<Rightarrow> habit_row list" where
  "db_search_habits db = habits db"

definition db_search_habits_period :: "int \<Rightarrow> database \<Rightarrow> habit_row list" where
  "db_search_habits_period habit_period db =
     filter (\<lambda>h. h_period h = habit_period) (habits db)"

definition db_search_deadlines :: "string \<Rightarrow> database \<Rightarrow> deadline_row list" where
  "db_search_deadlines task db = filter (\<lambda>d. d_task d = task) (deadlines db)"

subsection \<open>\<open>insert_habit\<close>\<close>

definition execute_habit_insert ::
  "string \<Rightarrow> int \<Rightarrow> date \<Rightarrow> int \<Rightarrow> database \<Rightarrow> database" where
  "execute_habit_insert task period start_date duration db =
     db\<lparr>habits := habits db @
            [\<lparr>h_id = habits_seq db + 1, h_task = task, h_period = period,
              h_start_date = start_date, h_duration = duration\<rparr>],
        habits_seq := habits_seq db + 1\<rparr>"

definition execute_deadline_insert ::
  "string \<Rightarrow> instant \<Rightarrow> instant \<Rightarrow> database \<Rightarrow> database" where
  "execute_deadline_insert task from_date to_date db =
     db\<lparr>deadlines := deadlines db @
            [\<lparr>d_id = deadlines_seq db + 1, d_task = task, d_from_date = from_date,
              d_to_date = to_date, d_checked_off = 0, d_completion_date = None\<rparr>],
        deadlines_seq := deadlines_seq db + 1\<rparr>"

text \<open>Python's \<open>range(n)\<close>: the integers from 0 to \<open>n - 1\<close>, none when \<open>n \<le> 0\<close>.\<close>

definition py_range :: "int \<Rightarrow> int list" where
  "py_range n = [0..n - 1]"

text \<open>
  The two datetimes of one \<open>INSERT INTO deadlines\<close>, evaluated left to right as the
  argument tuple is: \<open>strptime(start_date) + timedelta(days=interval * period)\<close>, then
  \<open>strptime(start_date) + timedelta(days=(interval + 1) * period)\<close>.
\<close>

definition deadline_bounds :: "date \<Rightarrow> int \<Rightarrow> int \<Rightarrow> error + instant \<times> instant" where
  "deadline_bounds start_date period interval =
     (case strptime_date start_date of Inl e \<Rightarrow> Inl e | Inr s1 \<Rightarrow>
      case timedelta (interval * period) of Inl e \<Rightarrow> Inl e | Inr d1 \<Rightarrow>
      case datetime_add s1 d1 of Inl e \<Rightarrow> Inl e | Inr from_date \<Rightarrow>
      case strptime_date start_date of Inl e \<Rightarrow> Inl e | Inr s2 \<Rightarrow>
      case timedelta ((interval + 1) * period) of Inl e \<Rightarrow> Inl e | Inr d2 \<Rightarrow>
      case datetime_add s2 d2 of Inl e \<Rightarrow> Inl e | Inr to_date \<Rightarrow>
      Inr (from_date, to_date))"

text \<open>
  The loop \<open>for interval in range(habit_intervlas)\<close>: an exception in the arguments of an
  insert ends it, with the rows inserted so far left in the table.
\<close>

fun insert_deadlines ::
  "string \<Rightarrow> date \<Rightarrow> int \<Rightarrow> int list \<Rightarrow> database \<Rightarrow> error option \<times> database" where
  "insert_deadlines task start_date period [] db = (None, db)"
| "insert_deadlines task start_date period (interval # intervals) db =
     (case deadline_bounds start_date period interval of
        Inl e \<Rightarrow> (Some e, db)
      | Inr (from_date, to_date) \<Rightarrow>
          insert_deadlines task start_date period intervals
            (execute_deadline_insert task from_date to_date db))"

text \<open>
  \<open>date\<close> is the optional start date; without it the start date is the day of \<open>now\<close>
  (the clock reading, a parameter of the model).  The habit row is inserted first, which
  raises when \<open>period\<close> or \<open>duration\<close> does not fit SQLite's integers; then
  \<open>duration // period\<close> raises when \<open>period\<close> is 0 (\<open>//\<close> is floor division, as \<open>div\<close>
  on \<open>int\<close>); then the loop inserts one deadline per element of the range.
\<close>

definition insert_habit ::
  "database \<Rightarrow> string \<Rightarrow> int \<Rightarrow> int \<Rightarrow> date option \<Rightarrow> instant \<Rightarrow> error option \<times> database" where
  "insert_habit db task period duration date now =
     (let start_date = (case date of Some d \<Rightarrow> d | None \<Rightarrow> strftime_date now)
      in if \<not> (sqlite_int period \<and> sqlite_int duration) then (Some OverflowError, db)
         else
           let db1 = execute_habit_insert task period start_date duration db
           in if period = 0 then (Some ZeroDivisionError, db1)
              else
                let habit_intervlas = duration div period + 1
                in insert_deadlines task start_date period (py_range habit_intervlas) db1)"

subsection \<open>\<open>list_habits\<close> and \<open>delete_habit\<close>\<close>

text \<open>
  \<open>if habit_period:\<close> is Python truthiness: \<open>None\<close> and \<open>0\<close> are false, every other
  integer is true, and is then bound to the parameter of \<open>WHERE period = ?\<close>.
\<close>

definition list_habits :: "database \<Rightarrow> int option \<Rightarrow> error + habit_row list" where
  "list_habits db habit_period =
     (case habit_period of
        None \<Rightarrow> Inr (db_search_habits db)
      | Some p \<Rightarrow>
          if p \<noteq> 0 then
            (if sqlite_int p then Inr (db_search_habits_period p db) else Inl OverflowError)
          else Inr (db_search_habits db))"

text \<open>\<open>if task:\<close> is false for \<open>None\<close> and for the empty string.\<close>

definition delete_habit :: "database \<Rightarrow> string option \<Rightarrow> database" where
  "delete_habit db task =
     (case task of
        None \<Rightarrow> db\<lparr>habits := [], deadlines := []\<rparr>
      | Some t \<Rightarrow>
          if t \<noteq> [] then
            db\<lparr>habits := filter (\<lambda>h. h_task h \<noteq> t) (habits db),
               deadlines := filter (\<lambda>d. d_task d \<noteq> t) (deadlines db)\<rparr>
          else db\<lparr>habits := [], deadlines := []\<rparr>)"

subsection \<open>\<open>check_off_habit\<close>\<close>

text \<open>
  The loop over the fetched rows assigns the local \<open>id\<close> at the first row whose bounds
  enclose \<open>current_time\<close> and breaks; \<open>None\<close> below is the local left unassigned.
\<close>

fun check_off_scan :: "instant \<Rightarrow> deadline_row list \<Rightarrow> nat option" where
  "check_off_scan current_time [] = None"
| "check_off_scan current_time (data # db_data) =
     (if d_from_date data \<le> current_time \<and> current_time \<le> d_to_date data
      then Some (d_id data)
      else check_off_scan current_time db_data)"

text \<open>\<open>UPDATE deadlines SET checked_off = 1, completion_date = ? WHERE id = ?\<close>\<close>

definition execute_check_off :: "instant \<Rightarrow> nat \<Rightarrow> database \<Rightarrow> database" where
  "execute_check_off current_time i db =
     db\<lparr>deadlines :=
          map (\<lambda>d. if d_id d = i
                   then d\<lparr>d_checked_off := 1, d_completion_date := Some current_time\<rparr>
                   else d)
              (deadlines db)\<rparr>"

text \<open>
  Reading \<open>id\<close> in the arguments of the \<open>UPDATE\<close> raises \<open>UnboundLocalError\<close> when the
  loop assigned nothing; the statement is then not executed.
\<close>

definition check_off_habit ::
  "database \<Rightarrow> string \<Rightarrow> instant option \<Rightarrow> instant \<Rightarrow> error option \<times> database" where
  "check_off_habit db task date now =
     (let db_data = db_search_deadlines task db;
          current_time = (case date of Some t \<Rightarrow> t | None \<Rightarrow> now)
      in case check_off_scan current_time db_data of
           None \<Rightarrow> (Some UnboundLocalError, db)
         | Some i \<Rightarrow> (None, execute_check_off current_time i db))"

subsection \<open>\<open>get_streak\<close>\<close>

text \<open>
  The loop state is the pair \<open>(max_streak, running_streak)\<close>; \<open>if data[4]:\<close> is true for
  a non-zero \<open>checked_off\<close>.
\<close>

fun streak_loop :: "deadline_row list \<Rightarrow> nat \<times> nat \<Rightarrow> nat \<times> nat" where
  "streak_loop [] (max_streak, running_streak) = (max_streak, running_streak)"
| "streak_loop (data # db_data) (max_streak, running_streak) =
     (if d_checked_off data \<noteq> 0
      then streak_loop db_data
             (if max_streak < running_streak + 1 then running_streak + 1 else max_streak,
              running_streak + 1)
      else streak_loop db_data (max_streak, 0))"

definition get_streak :: "database \<Rightarrow> string \<Rightarrow> nat" where
  "get_streak db task = fst (streak_loop (db_search_deadlines task db) (0, 0))"

subsection \<open>\<open>get_success_rate\<close>\<close>

text \<open>
  \<open>/\<close> on two integers is true division and raises on a zero divisor; its value is
  the quotient as a real number (the float Python returns is that quotient rounded).
\<close>

definition py_truediv :: "int \<Rightarrow> int \<Rightarrow> error + real" where
  "py_truediv a b = (if b = 0 then Inl ZeroDivisionError else Inr (real_of_int a / real_of_int b))"

text \<open>
  \<open>duration = int(duration) if duration else 30\<close>: a \<open>duration\<close> of \<open>None\<close> or 0 becomes
  30.  \<open>current_time - timedelta(days=duration)\<close> raises when the day count or the
  resulting datetime is out of range; this is before the rows are filtered and outside
  the \<open>try\<close>.  The \<open>except\<close> clause catches \<open>ZeroDivisionError\<close> only.
\<close>

definition get_success_rate ::
  "database \<Rightarrow> string \<Rightarrow> int option \<Rightarrow> instant \<Rightarrow> error + real" where
  "get_success_rate db task duration now =
     (let db_data = db_search_deadlines task db;
          duration = (case duration of None \<Rightarrow> 30 | Some n \<Rightarrow> if n \<noteq> 0 then n else 30);
          current_time = now
      in case timedelta duration of Inl e \<Rightarrow> Inl e | Inr delta \<Rightarrow>
         case datetime_sub current_time delta of Inl e \<Rightarrow> Inl e | Inr from_date \<Rightarrow>
           let filtered_data =
                 filter (\<lambda>data.
                     (from_date \<le> d_to_date data \<and> d_to_date data \<le> current_time)
                     \<or> (from_date \<le> d_from_date data \<and> d_from_date data \<le> current_time))
                   db_data;
               check_off_sum = sum_list (map d_checked_off filtered_data)
           in case py_truediv check_off_sum (int (length filtered_data)) of
                Inl ZeroDivisionError \<Rightarrow> Inr 0
              | Inl e \<Rightarrow> Inl e
              | Inr success_rate \<Rightarrow> Inr success_rate)"

section \<open>Notions used in the statements and proofs\<close>

text \<open>A day of the calendar, from 0001-01-01 to 9999-12-31, and midnight of a day.\<close>

definition valid_date :: "date \<Rightarrow> bool" where
  "valid_date d = (- 719162 \<le> d \<and> d \<le> 2932896)"

definition midnight :: "date \<Rightarrow> instant" where
  "midnight d = d * us_per_day"

text \<open>The row that one \<open>INSERT INTO deadlines\<close> of \<open>insert_habit\<close> creates under id \<open>i\<close>.\<close>

definition new_deadline :: "string \<Rightarrow> instant \<Rightarrow> instant \<Rightarrow> nat \<Rightarrow> deadline_row" where
  "new_deadline task from_date to_date i =
     \<lparr>d_id = i, d_task = task, d_from_date = from_date, d_to_date = to_date,
      d_checked_off = 0, d_completion_date = None\<rparr>"

text \<open>
  The rows that a loop of \<open>insert_habit\<close> which runs to its end creates, given the start
  day and the last id used before.
\<close>

definition generated_deadlines :: "string \<Rightarrow> date \<Rightarrow> int \<Rightarrow> nat \<Rightarrow> int \<Rightarrow> deadline_row list" where
  "generated_deadlines task start_date period seq n =
     map (\<lambda>k. new_deadline task (midnight (start_date + int k * period))
                (midnight (start_date + (int k + 1) * period)) (seq + 1 + k))
       [0..<nat n]"

text \<open>
  A schedule of \<open>n\<close> deadlines stays in the calendar: there is no deadline at all, or the
  start day and the day the last deadline ends on, \<open>n\<close> periods later, are days of the
  calendar.
\<close>

definition schedule_in_calendar :: "date \<Rightarrow> int \<Rightarrow> int \<Rightarrow> bool" where
  "schedule_in_calendar start_date period n =
     (n \<le> 0 \<or> (valid_date start_date \<and> valid_date (start_date + n * period)))"

text \<open>
  \<open>id\<close> is the primary key of \<open>deadlines\<close>: no two rows share an id, and no id exceeds
  the largest one handed out.  SQLite enforces it; the operations keep it (lemmas
  \<open>primary_key_*\<close> below).
\<close>

definition primary_key :: "database \<Rightarrow> bool" where
  "primary_key db =
     (distinct (map d_id (deadlines db))
      \<and> (\<forall>i \<in> set (map d_id (deadlines db)). i \<le> deadlines_seq db))"

text \<open>The test of \<open>check_off_habit\<close>: the instant lies within the bounds of the row, both included.\<close>

definition encloses :: "deadline_row \<Rightarrow> instant \<Rightarrow> bool" where
  "encloses d t = (d_from_date d \<le> t \<and> t \<le> d_to_date d)"

text \<open>
  The schedule of the running example: the habit \<open>run\<close> with a period of 7 days and a
  duration of 30 days, started on 2024-01-01 (day 19723), in a fresh store.
\<close>

definition scenario_db :: database where
  "scenario_db = snd (insert_habit create_tables ''run'' 7 30 (Some 19723) 0)"

text \<open>
  A run: the \<open>n\<close> consecutive rows from position \<open>i\<close> on exist and are all checked off.
\<close>

definition is_run :: "deadline_row list \<Rightarrow> nat \<Rightarrow> nat \<Rightarrow> bool" where
  "is_run rows i n = (i + n \<le> length rows \<and> (\<forall>j < n. d_checked_off (rows ! (i + j)) \<noteq> 0))"

text \<open>
  The streak algorithm in the words of the specification: keep \<open>running\<close> and \<open>max\<close>, both
  0 at the start; for a checked row add 1 to \<open>running\<close> and set \<open>max\<close> to
  \<open>max(max, running)\<close>, for any other row set \<open>running\<close> to 0; return \<open>max\<close>.
\<close>

definition max_streak_step :: "deadline_row \<Rightarrow> nat \<times> nat \<Rightarrow> nat \<times> nat" where
  "max_streak_step d s =
     (case s of (mx, running) \<Rightarrow>
        if d_checked_off d \<noteq> 0 then (max mx (running + 1), running + 1) else (mx, 0))"

definition max_streak_spec :: "deadline_row list \<Rightarrow> nat" where
  "max_streak_spec rows = fst (fold max_streak_step rows (0, 0))"

text \<open>The number of checked rows at the head of a list, before the first unchecked one.\<close>

definition leading :: "deadline_row list \<Rightarrow> nat" where
  "leading rows = length (takeWhile (\<lambda>d. d_checked_off d \<noteq> 0) rows)"

text \<open>
  The example after four check-offs, inside the first, second, fourth and fifth deadline:
  the pattern of \<open>checked_off\<close> is 1, 1, 0, 1, 1.
\<close>

definition checked_db :: database where
  "checked_db =
     fold (\<lambda>t db. snd (check_off_habit db ''run'' (Some t) 0))
       [1704100000000000, 1704700000000000, 1705900000000000, 1706500000000000]
       scenario_db"

text \<open>
  The window length of the success rate: the given number of days, and the default of 30
  days for an argument of \<open>None\<close> or 0.
\<close>

definition window_days :: "int option \<Rightarrow> int" where
  "window_days duration = (case duration of None \<Rightarrow> 30 | Some n \<Rightarrow> if n \<noteq> 0 then n else 30)"

text \<open>
  The window can be computed: its length is a day count \<open>timedelta\<close> accepts, and its
  start, that many days before \<open>now\<close>, is a datetime of the calendar.
\<close>

definition window_in_calendar :: "instant \<Rightarrow> int option \<Rightarrow> bool" where
  "window_in_calendar now duration =
     (- 999999999 \<le> window_days duration \<and> window_days duration \<le> 999999999
      \<and> datetime_min \<le> now - window_days duration * us_per_day
      \<and> now - window_days duration * us_per_day \<le> datetime_max)"

text \<open>
  The filter of the success rate: the end of the deadline lies in the window from
  \<open>window_start\<close> to \<open>now\<close>, or its beginning does (all bounds included).
\<close>

definition in_window :: "instant \<Rightarrow> instant \<Rightarrow> deadline_row \<Rightarrow> bool" where
  "in_window window_start now d =
     ((window_start \<le> d_to_date d \<and> d_to_date d \<le> now)
      \<or> (window_start \<le> d_from_date d \<and> d_from_date d \<le> now))"

text \<open>
  The success rate in the words of the specification: over the deadlines in the window of
  the given number of days, the sum of the \<open>checked_off\<close> flags divided by their number, and
  0 when there is none.
\<close>

definition success_rate_spec :: "deadline_row list \<Rightarrow> int \<Rightarrow> instant \<Rightarrow> real" where
  "success_rate_spec intervals days now =
     (let filtered = filter (in_window (now - days * us_per_day) now) intervals
      in if filtered = [] then 0
         else real_of_int (sum_list (map d_checked_off filtered)) / real (length filtered))"

text \<open>
  A store with two habits and no deadline: \<open>nap\<close> with period 0 (its insertion raised
  after the habit row was written) and \<open>run\<close> with period 7 and duration \<open>-30\<close> (no
  deadline is generated).
\<close>

definition mixed_db :: database where
  "mixed_db =
     snd (insert_habit (snd (insert_habit create_tables ''nap'' 0 30 (Some 19723) 0))
            ''run'' 7 (- 30) (Some 19723) 0)"

section \<open>Schedule generation\<close>

lemma fold_deadline_insert:
  "fold (\<lambda>i. execute_deadline_insert task (f i) (g i)) ivs db =
     db\<lparr>deadlines := deadlines db @
            map (\<lambda>(k, i). new_deadline task (f i) (g i) (deadlines_seq db + 1 + k))
              (zip [0..<length ivs] ivs),
        deadlines_seq := deadlines_seq db + length ivs\<rparr>"
proof (induction ivs rule: rev_induct)
  case Nil
  show ?case by simp
next
  case (snoc x xs)
  show ?case
  proof -
    have "fold (\<lambda>i. execute_deadline_insert task (f i) (g i)) (xs @ [x]) db =
            execute_deadline_insert task (f x) (g x)
              (fold (\<lambda>i. execute_deadline_insert task (f i) (g i)) xs db)"
      by simp
    also have "\<dots> = db\<lparr>deadlines := deadlines db @
            map (\<lambda>(k, i). new_deadline task (f i) (g i) (deadlines_seq db + 1 + k))
              (zip [0..<length (xs @ [x])] (xs @ [x])),
        deadlines_seq := deadlines_seq db + length (xs @ [x])\<rparr>"
      unfolding snoc by (simp add: execute_deadline_insert_def new_deadline_def)
    finally show ?thesis .
  qed
qed

lemma length_py_range: "length (py_range n) = nat n"
  by (simp add: py_range_def)

lemma nth_py_range: "k < nat n \<Longrightarrow> py_range n ! k = int k"
  by (simp add: py_range_def)

lemma zip_py_range: "zip [0..<nat n] (py_range n) = map (\<lambda>k. (k, int k)) [0..<nat n]"
  by (rule nth_equalityI) (simp_all add: length_py_range nth_py_range)

lemma strptime_date_valid: "valid_date s \<Longrightarrow> strptime_date s = Inr (s * us_per_day)"
  by (simp add: strptime_date_def valid_date_def)

lemma timedelta_days:
  "valid_date s \<Longrightarrow> valid_date (s + x) \<Longrightarrow> timedelta x = Inr (x * us_per_day)"
  by (simp add: timedelta_def valid_date_def)

lemma datetime_add_days:
  "valid_date (s + x) \<Longrightarrow> datetime_add (s * us_per_day) (x * us_per_day) = Inr (midnight (s + x))"
  by (simp add: datetime_add_def valid_date_def midnight_def datetime_min_def datetime_max_def
      us_per_day_def algebra_simps)

lemma deadline_bounds_valid:
  assumes "valid_date s" and "valid_date (s + i * p)" and "valid_date (s + (i + 1) * p)"
  shows "deadline_bounds s p i = Inr (midnight (s + i * p), midnight (s + (i + 1) * p))"
  unfolding deadline_bounds_def
  by (simp add: strptime_date_valid [OF assms(1)] timedelta_days [OF assms(1,2)]
      timedelta_days [OF assms(1,3)] datetime_add_days [OF assms(2)]
      datetime_add_days [OF assms(3)])

lemma insert_deadlines_valid:
  assumes "valid_date s"
    and "\<forall>i \<in> set ivs. valid_date (s + i * p) \<and> valid_date (s + (i + 1) * p)"
  shows "insert_deadlines task s p ivs db =
     (None, fold (\<lambda>i. execute_deadline_insert task (midnight (s + i * p))
                        (midnight (s + (i + 1) * p))) ivs db)"
  using assms(2)
  by (induction ivs arbitrary: db) (simp_all add: deadline_bounds_valid assms(1))

lemma valid_date_between:
  assumes "valid_date s" and "valid_date (s + n * p)" and "0 \<le> k" and "k \<le> n"
  shows "valid_date (s + k * p)"
proof -
  have "(0 \<le> k * p \<and> k * p \<le> n * p) \<or> (n * p \<le> k * p \<and> k * p \<le> 0)"
  proof (cases "0 \<le> p")
    case True
    with assms(3,4) show ?thesis
      by (simp add: mult_right_mono)
  next
    case False
    then have "p \<le> 0" by simp
    with assms(3,4) show ?thesis
      by (simp add: mult_right_mono_neg mult_nonneg_nonpos)
  qed
  with assms(1,2) show ?thesis
    by (auto simp: valid_date_def)
qed

lemma insert_habit_in_calendar:
  assumes "period \<noteq> 0" and "sqlite_int period" and "sqlite_int duration"
    and "schedule_in_calendar (case date of Some d \<Rightarrow> d | None \<Rightarrow> strftime_date now)
           period (duration div period + 1)"
  shows "insert_habit db task period duration date now =
     (None,
      db\<lparr>habits := habits db @
            [\<lparr>h_id = habits_seq db + 1, h_task = task, h_period = period,
              h_start_date = (case date of Some d \<Rightarrow> d | None \<Rightarrow> strftime_date now),
              h_duration = duration\<rparr>],
         habits_seq := habits_seq db + 1,
         deadlines := deadlines db @
            generated_deadlines task
              (case date of Some d \<Rightarrow> d | None \<Rightarrow> strftime_date now)
              period (deadlines_seq db) (duration div period + 1),
         deadlines_seq := deadlines_seq db + nat (duration div period + 1)\<rparr>)"
proof -
  let ?s = "case date of Some d \<Rightarrow> d | None \<Rightarrow> strftime_date now"
  let ?n = "duration div period + 1"
  let ?db1 = "execute_habit_insert task period ?s duration db"
  have start: "insert_habit db task period duration date now =
      insert_deadlines task ?s period (py_range ?n) ?db1"
    using assms(1-3) by (simp add: insert_habit_def Let_def)
  show ?thesis
  proof (cases "?n \<le> 0")
    case True
    then have "py_range ?n = []" by (simp add: py_range_def)
    with True show ?thesis
      unfolding start
      by (simp add: generated_deadlines_def execute_habit_insert_def)
  next
    case False
    with assms(4) have v: "valid_date ?s" "valid_date (?s + ?n * period)"
      by (simp_all add: schedule_in_calendar_def)
    have "\<forall>i \<in> set (py_range ?n).
            valid_date (?s + i * period) \<and> valid_date (?s + (i + 1) * period)"
    proof
      fix i assume "i \<in> set (py_range ?n)"
      then have i: "0 \<le> i" "i + 1 \<le> ?n" by (simp_all add: py_range_def)
      have "valid_date (?s + i * period)"
        by (rule valid_date_between [OF v]) (use i in simp_all)
      moreover have "valid_date (?s + (i + 1) * period)"
        by (rule valid_date_between [OF v]) (use i in simp_all)
      ultimately show "valid_date (?s + i * period) \<and> valid_date (?s + (i + 1) * period)" ..
    qed
    from insert_deadlines_valid [OF v(1) this]
    show ?thesis
      unfolding start
      by (simp add: fold_deadline_insert zip_py_range length_py_range
          generated_deadlines_def execute_habit_insert_def comp_def)
  qed
qed

lemma length_generated: "length (generated_deadlines task start_date period seq n) = nat n"
  by (simp add: generated_deadlines_def)

lemma nth_generated:
  "k < nat n \<Longrightarrow> generated_deadlines task start_date period seq n ! k =
     new_deadline task (midnight (start_date + int k * period))
                (midnight (start_date + (int k + 1) * period)) (seq + 1 + k)"
  by (simp add: generated_deadlines_def)

lemma midnight_strict_mono:
  "0 < period \<Longrightarrow> i < j \<Longrightarrow>
     midnight (start_date + int i * period) < midnight (start_date + int j * period)"
  by (simp add: midnight_def us_per_day_def)

lemma sorted_generated:
  assumes "0 < period"
  shows "sorted_wrt (<) (map d_from_date (generated_deadlines task start_date period seq n))"
  using assms
  by (simp add: sorted_wrt_iff_nth_less length_generated nth_generated new_deadline_def
      midnight_strict_mono)

lemma schedule_bounds_positive:
  assumes "0 < period" and "0 < duration"
    and "valid_date s" and "valid_date (s + (duration div period + 1) * period)"
  shows "sqlite_int period \<and> sqlite_int duration"
proof -
  let ?n = "duration div period + 1"
  have span: "?n * period \<le> 3652058"
    using assms(3,4) by (simp add: valid_date_def)
  have n: "1 \<le> ?n"
    using assms(1,2) by (simp add: pos_imp_zdiv_nonneg_iff)
  have "1 * period \<le> ?n * period"
    using n assms(1) by (intro mult_right_mono) simp_all
  then have p: "period \<le> ?n * period" by simp
  have "duration = (duration div period) * period + duration mod period"
    by simp
  moreover have "duration mod period < period"
    using assms(1) by simp
  moreover have "?n * period = (duration div period) * period + period"
    by (simp add: algebra_simps)
  ultimately have d: "duration < ?n * period" by linarith
  from span p d have "period \<le> 3652058" and "duration \<le> 3652058"
    by linarith+
  with assms(1,2) show ?thesis
    by (simp add: sqlite_int_def)
qed

text \<open>
  C1 (as stated, refuted).  With a period of 4000000 days and a duration of 30 days from
  2024-01-01, the single deadline would end after the year 9999: the second
  \<open>datetime + timedelta\<close> of the first insert raises \<open>OverflowError\<close>, after the habit row
  has been inserted, and no deadline is created.
\<close>

theorem insert_habit_beyond_calendar:
  "insert_habit create_tables ''run'' 4000000 30 (Some 19723) 0 =
     (Some OverflowError,
      \<lparr>habits = [\<lparr>h_id = 1, h_task = ''run'', h_period = 4000000, h_start_date = 19723,
                  h_duration = 30\<rparr>],
       deadlines = [], habits_seq = 1, deadlines_seq = 0\<rparr>)"
  by (simp add: insert_habit_def create_tables_def py_range_def sqlite_int_def
      execute_habit_insert_def deadline_bounds_def strptime_date_def timedelta_def
      datetime_add_def datetime_min_def datetime_max_def us_per_day_def)

text \<open>
  C1 (amended).  For a positive period and a positive duration, when the start day and the
  day the last deadline ends on, \<open>start_date + (duration // period + 1) * period\<close>, are
  days of the calendar (years 1 to 9999), \<open>insert_habit\<close> succeeds and appends exactly
  \<open>duration // period + 1\<close> deadlines to the table.  Deadline \<open>i\<close> belongs to the task,
  runs from midnight of day \<open>start_date + i * period\<close> to midnight of day
  \<open>start_date + (i + 1) * period\<close>, is not checked off and has no completion date.
  Each deadline ends where the next one begins, and the deadlines are in strictly
  increasing order of \<open>from_date\<close>.
\<close>

theorem insert_habit_generates_intervals:
  assumes "0 < period" and "0 < duration"
    and "valid_date (case date of Some d \<Rightarrow> d | None \<Rightarrow> strftime_date now)"
    and "valid_date ((case date of Some d \<Rightarrow> d | None \<Rightarrow> strftime_date now)
           + (duration div period + 1) * period)"
  shows "\<exists>db' new.
           insert_habit db task period duration date now = (None, db')
         \<and> deadlines db' = deadlines db @ new
         \<and> int (length new) = duration div period + 1
         \<and> (\<forall>i < length new.
               d_task (new ! i) = task
             \<and> d_from_date (new ! i) =
                 midnight ((case date of Some d \<Rightarrow> d | None \<Rightarrow> strftime_date now)
                   + int i * period)
             \<and> d_to_date (new ! i) =
                 midnight ((case date of Some d \<Rightarrow> d | None \<Rightarrow> strftime_date now)
                   + (int i + 1) * period)
             \<and> d_checked_off (new ! i) = 0
             \<and> d_completion_date (new ! i) = None)
         \<and> (\<forall>i. Suc i < length new \<longrightarrow> d_to_date (new ! i) = d_from_date (new ! Suc i))
         \<and> sorted_wrt (<) (map d_from_date new)"
proof -
  let ?start = "case date of Some d \<Rightarrow> d | None \<Rightarrow> strftime_date now"
  let ?n = "duration div period + 1"
  let ?new = "generated_deadlines task ?start period (deadlines_seq db) ?n"
  have n: "0 \<le> ?n"
    using assms(1,2) by (simp add: pos_imp_zdiv_nonneg_iff)
  have nz: "period \<noteq> 0" using assms(1) by simp
  have fit: "schedule_in_calendar ?start period ?n"
    using assms(3,4) by (simp add: schedule_in_calendar_def)
  from schedule_bounds_positive [OF assms]
  have sq: "sqlite_int period" "sqlite_int duration" by simp_all
  note ins = insert_habit_in_calendar [OF nz sq fit, of db task]
  have len: "int (length ?new) = ?n"
    using n by (simp add: length_generated)
  have rows: "\<forall>i < length ?new.
               d_task (?new ! i) = task
             \<and> d_from_date (?new ! i) = midnight (?start + int i * period)
             \<and> d_to_date (?new ! i) = midnight (?start + (int i + 1) * period)
             \<and> d_checked_off (?new ! i) = 0
             \<and> d_completion_date (?new ! i) = None"
    by (simp add: length_generated nth_generated new_deadline_def)
  have contig: "\<forall>i. Suc i < length ?new \<longrightarrow> d_to_date (?new ! i) = d_from_date (?new ! Suc i)"
    by (simp add: length_generated nth_generated new_deadline_def add.commute)
  have ord: "sorted_wrt (<) (map d_from_date ?new)"
    by (rule sorted_generated) (rule assms)
  show ?thesis
    apply (rule exI, rule exI [of _ ?new])
    apply (intro conjI)
          apply (rule ins)
         apply simp
        apply (rule len)
       apply (rule rows)
      apply (rule contig)
    apply (rule ord)
    done
qed

theorem insert_habit_generates_intervals_witness:
  "(0::int) < 7 \<and> (0::int) < 30 \<and> valid_date 19723 \<and> valid_date (19723 + (30 div 7 + 1) * 7) \<and>
   fst (insert_habit create_tables ''run'' 7 30 (Some 19723) 0) = None \<and>
   length (deadlines (snd (insert_habit create_tables ''run'' 7 30 (Some 19723) 0))) = 5"
proof -
  have v: "valid_date (case Some 19723 of Some d \<Rightarrow> d | None \<Rightarrow> strftime_date 0)"
    "valid_date ((case Some 19723 of Some d \<Rightarrow> d | None \<Rightarrow> strftime_date 0)
       + (30 div 7 + 1) * 7)"
    by (simp_all add: valid_date_def)
  from insert_habit_generates_intervals [OF _ _ v, of create_tables "''run''"] v
  show ?thesis by (auto simp: create_tables_def)
qed

subsection \<open>The running example\<close>

lemma py_range_5: "py_range 5 = [0, 1, 2, 3, 4]"
  by (simp add: py_range_def upto.simps)

lemma scenario_db_eq:
  "scenario_db =
     \<lparr>habits = [\<lparr>h_id = 1, h_task = ''run'', h_period = 7, h_start_date = 19723, h_duration = 30\<rparr>],
      deadlines =
        [new_deadline ''run'' 1704067200000000 1704672000000000 1,
         new_deadline ''run'' 1704672000000000 1705276800000000 2,
         new_deadline ''run'' 1705276800000000 1705881600000000 3,
         new_deadline ''run'' 1705881600000000 1706486400000000 4,
         new_deadline ''run'' 1706486400000000 1707091200000000 5],
      habits_seq = 1, deadlines_seq = 5\<rparr>"
proof -
  have fit: "schedule_in_calendar (case Some 19723 of Some d \<Rightarrow> d | None \<Rightarrow> strftime_date 0)
      7 (30 div 7 + 1)"
    by (simp add: schedule_in_calendar_def valid_date_def)
  have "insert_habit create_tables ''run'' 7 30 (Some 19723) 0 =
      (None, \<lparr>habits = [\<lparr>h_id = 1, h_task = ''run'', h_period = 7, h_start_date = 19723, h_duration = 30\<rparr>],
      deadlines =
        [new_deadline ''run'' 1704067200000000 1704672000000000 1,
         new_deadline ''run'' 1704672000000000 1705276800000000 2,
         new_deadline ''run'' 1705276800000000 1705881600000000 3,
         new_deadline ''run'' 1705881600000000 1706486400000000 4,
         new_deadline ''run'' 1706486400000000 1707091200000000 5],
      habits_seq = 1, deadlines_seq = 5\<rparr>)"
    unfolding insert_habit_in_calendar [OF _ _ _ fit, of create_tables "''run''", simplified sqlite_int_def, simplified]
    by (simp add: create_tables_def generated_deadlines_def midnight_def us_per_day_def
        upt_rec [of 0] upt_rec [of "Suc 0"] numeral_2_eq_2 numeral_3_eq_3 eval_nat_numeral)
  then show ?thesis by (simp add: scenario_db_def)
qed

subsection \<open>Requests that are not validated\<close>

text \<open>With a period of 0 the division raises after the habit row has been inserted.\<close>

lemma insert_habit_zero_period:
  "sqlite_int duration \<Longrightarrow>
   insert_habit db task 0 duration date now =
     (Some ZeroDivisionError,
      execute_habit_insert task 0 (case date of Some d \<Rightarrow> d | None \<Rightarrow> strftime_date now) duration db)"
  by (simp add: insert_habit_def sqlite_int_def)

text \<open>
  C8 (as stated, refuted).  A request with period \<open>-7\<close> and duration \<open>-30\<close> is not
  rejected: \<open>insert_habit\<close> returns normally, the habit row is created and five deadlines
  are created, running backwards in time.
\<close>

theorem insert_habit_negative_period_accepted:
  "insert_habit create_tables ''run'' (- 7) (- 30) (Some 19723) 0 =
     (None,
      \<lparr>habits = [\<lparr>h_id = 1, h_task = ''run'', h_period = - 7, h_start_date = 19723,
                  h_duration = - 30\<rparr>],
       deadlines =
        [new_deadline ''run'' 1704067200000000 1703462400000000 1,
         new_deadline ''run'' 1703462400000000 1702857600000000 2,
         new_deadline ''run'' 1702857600000000 1702252800000000 3,
         new_deadline ''run'' 1702252800000000 1701648000000000 4,
         new_deadline ''run'' 1701648000000000 1701043200000000 5],
       habits_seq = 1, deadlines_seq = 5\<rparr>)"
  by (simp add: insert_habit_def create_tables_def py_range_5 sqlite_int_def
      execute_habit_insert_def execute_deadline_insert_def deadline_bounds_def
      strptime_date_def timedelta_def datetime_add_def datetime_min_def datetime_max_def
      us_per_day_def new_deadline_def)

text \<open>
  C8 (amended).  \<open>insert_habit\<close> does not validate its arguments.  For a negative period,
  and for a positive period with a non-positive duration, when period and duration fit
  SQLite's integers and the schedule stays in the calendar, it raises nothing, appends the
  habit row and appends \<open>max(0, duration // period + 1)\<close> deadlines, leaving the older
  rows as they were.
\<close>

theorem insert_habit_unvalidated:
  assumes "period < 0 \<or> (0 < period \<and> duration \<le> 0)"
    and "sqlite_int period" and "sqlite_int duration"
    and "schedule_in_calendar (case date of Some d \<Rightarrow> d | None \<Rightarrow> strftime_date now)
           period (duration div period + 1)"
  shows "\<exists>db'. insert_habit db task period duration date now = (None, db')
           \<and> habits db' = habits db @
                [\<lparr>h_id = habits_seq db + 1, h_task = task, h_period = period,
                  h_start_date = (case date of Some d \<Rightarrow> d | None \<Rightarrow> strftime_date now),
                  h_duration = duration\<rparr>]
           \<and> length (deadlines db') = length (deadlines db) + nat (duration div period + 1)
           \<and> take (length (deadlines db)) (deadlines db') = deadlines db"
proof -
  from assms(1) have "period \<noteq> 0" by auto
  from insert_habit_in_calendar [OF this assms(2,3,4), of db task]
  show ?thesis by (simp add: length_generated)
qed

theorem insert_habit_unvalidated_witness:
  "((- 7 :: int) < 0 \<or> ((0::int) < - 7 \<and> (365::int) \<le> 0))
   \<and> sqlite_int (- 7) \<and> sqlite_int 365
   \<and> schedule_in_calendar 19723 (- 7) (365 div (- 7) + 1)
   \<and> fst (insert_habit create_tables ''run'' (- 7) 365 (Some 19723) 0) = None
   \<and> map h_period (habits (snd (insert_habit create_tables ''run'' (- 7) 365 (Some 19723) 0))) = [- 7]
   \<and> deadlines (snd (insert_habit create_tables ''run'' (- 7) 365 (Some 19723) 0)) = []"
proof -
  have sq: "sqlite_int (- 7)" "sqlite_int 365"
    by (simp_all add: sqlite_int_def)
  have fit: "schedule_in_calendar (case Some 19723 of Some d \<Rightarrow> d | None \<Rightarrow> strftime_date 0)
      (- 7) (365 div (- 7) + 1)"
    by (simp add: schedule_in_calendar_def)
  from insert_habit_unvalidated [OF _ sq fit, of create_tables "''run''"] sq fit
  show ?thesis by (auto simp: create_tables_def)
qed

section \<open>The primary key is kept\<close>

lemma primary_key_create_tables: "primary_key create_tables"
  by (simp add: primary_key_def create_tables_def)

lemma primary_key_execute_habit_insert:
  "primary_key db \<Longrightarrow> primary_key (execute_habit_insert task period start_date duration db)"
  by (simp add: primary_key_def execute_habit_insert_def)

lemma primary_key_execute_deadline_insert:
  assumes "primary_key db"
  shows "primary_key (execute_deadline_insert task from_date to_date db)"
proof -
  have "\<forall>i \<in> set (map d_id (deadlines db)). i \<noteq> deadlines_seq db + 1 \<and> i \<le> deadlines_seq db + 1"
    using assms by (fastforce simp: primary_key_def)
  with assms show ?thesis
    by (auto simp: primary_key_def execute_deadline_insert_def)
qed

lemma primary_key_insert_deadlines:
  "primary_key db \<Longrightarrow> primary_key (snd (insert_deadlines task start_date period ivs db))"
  by (induction ivs arbitrary: db)
     (auto simp: primary_key_execute_deadline_insert split: sum.splits prod.splits)

lemma primary_key_insert_habit:
  assumes "primary_key db"
  shows "primary_key (snd (insert_habit db task period duration date now))"
  using assms
  by (simp add: insert_habit_def Let_def primary_key_execute_habit_insert
      primary_key_insert_deadlines)

lemma d_id_execute_check_off:
  "map d_id (deadlines (execute_check_off t i db)) = map d_id (deadlines db)"
proof -
  have "map d_id (map (\<lambda>d. if d_id d = i then d\<lparr>d_checked_off := 1, d_completion_date := Some t\<rparr> else d) rows)
          = map d_id rows" for rows :: "deadline_row list"
    by (induction rows) simp_all
  then show ?thesis
    unfolding execute_check_off_def by simp
qed

lemma primary_key_check_off_habit:
  assumes "primary_key db"
  shows "primary_key (snd (check_off_habit db task date now))"
proof (cases "check_off_scan (case date of Some t \<Rightarrow> t | None \<Rightarrow> now) (db_search_deadlines task db)")
  case None
  with assms show ?thesis by (simp add: check_off_habit_def)
next
  case (Some i)
  have "deadlines_seq (execute_check_off t i db) = deadlines_seq db" for t
    by (simp add: execute_check_off_def)
  with assms Some show ?thesis
    unfolding primary_key_def check_off_habit_def Let_def
    by (simp add: d_id_execute_check_off)
qed

lemma primary_key_delete_habit:
  assumes "primary_key db"
  shows "primary_key (delete_habit db task)"
  using assms
  by (auto simp: delete_habit_def primary_key_def distinct_map_filter split: option.splits)

section \<open>Check-off\<close>

lemma check_off_scan_None: "check_off_scan t rows = None \<longleftrightarrow> (\<forall>d \<in> set rows. \<not> encloses d t)"
  by (induction rows) (auto simp: encloses_def)

lemma check_off_scan_Some:
  "check_off_scan t rows = Some i \<Longrightarrow>
     \<exists>k < length rows. i = d_id (rows ! k) \<and> encloses (rows ! k) t \<and> (\<forall>j < k. \<not> encloses (rows ! j) t)"
proof (induction rows)
  case Nil
  then show ?case by simp
next
  case (Cons data rows)
  show ?case
  proof (cases "encloses data t")
    case True
    with Cons.prems have "i = d_id data" by (simp add: encloses_def)
    with True show ?thesis by (intro exI [of _ 0]) simp
  next
    case False
    with Cons.prems have "check_off_scan t rows = Some i"
      by (auto simp: encloses_def split: if_splits)
    from Cons.IH [OF this] obtain k where k: "k < length rows" "i = d_id (rows ! k)"
      "encloses (rows ! k) t" "\<forall>j < k. \<not> encloses (rows ! j) t" by blast
    have "\<forall>j < Suc k. \<not> encloses ((data # rows) ! j) t"
      using False k(4) by (auto simp: less_Suc_eq_0_disj)
    with k show ?thesis by (intro exI [of _ "Suc k"]) simp
  qed
qed

lemma same_id_same_row:
  assumes "primary_key db" "hit \<in> set (deadlines db)" "d \<in> set (deadlines db)"
  shows "d_id d = d_id hit \<longleftrightarrow> d = hit"
  using assms by (auto simp: primary_key_def distinct_map inj_on_def)

text \<open>
  C2.  Let \<open>t\<close> be the check-off instant (the given \<open>date\<close>, else \<open>now\<close>).  If some
  deadline of the task encloses \<open>t\<close>, then \<open>check_off_habit\<close> succeeds, and there is a
  position \<open>k\<close> in the task's deadlines, in scan order, such that deadline \<open>k\<close> encloses
  \<open>t\<close> (both bounds included), no earlier deadline of the task does, and the new table is
  the old one with exactly that row changed: its \<open>checked_off\<close> is 1 and its
  \<open>completion_date\<close> is \<open>t\<close>.  All other rows, and the habits, are unchanged.  The
  witness checks off the instant 2024-01-08 00:00:00, which ends the first deadline of
  the example and begins the second: the first one is marked.
\<close>

theorem check_off_habit_first_match:
  assumes "primary_key db"
    and "\<exists>d \<in> set (db_search_deadlines task db).
           encloses d (case date of Some t \<Rightarrow> t | None \<Rightarrow> now)"
  shows "\<exists>k < length (db_search_deadlines task db).
           encloses (db_search_deadlines task db ! k) (case date of Some t \<Rightarrow> t | None \<Rightarrow> now)
         \<and> (\<forall>j < k. \<not> encloses (db_search_deadlines task db ! j)
                          (case date of Some t \<Rightarrow> t | None \<Rightarrow> now))
         \<and> check_off_habit db task date now =
             (None,
              db\<lparr>deadlines :=
                   map (\<lambda>d. if d = db_search_deadlines task db ! k
                            then d\<lparr>d_checked_off := 1,
                                   d_completion_date :=
                                     Some (case date of Some t \<Rightarrow> t | None \<Rightarrow> now)\<rparr>
                            else d)
                     (deadlines db)\<rparr>)"
proof -
  let ?t = "case date of Some t \<Rightarrow> t | None \<Rightarrow> now"
  let ?rows = "db_search_deadlines task db"
  from assms(2) have "check_off_scan ?t ?rows \<noteq> None"
    by (simp add: check_off_scan_None)
  then obtain i where i: "check_off_scan ?t ?rows = Some i" by blast
  from check_off_scan_Some [OF this] obtain k where k: "k < length ?rows"
    "i = d_id (?rows ! k)" "encloses (?rows ! k) ?t" "\<forall>j < k. \<not> encloses (?rows ! j) ?t"
    by blast
  have "?rows ! k \<in> set ?rows" using k(1) by simp
  then have hit: "?rows ! k \<in> set (deadlines db)"
    by (simp add: db_search_deadlines_def)
  have upd: "map (\<lambda>d. if d_id d = i then d\<lparr>d_checked_off := 1, d_completion_date := Some ?t\<rparr> else d)
               (deadlines db) =
             map (\<lambda>d. if d = ?rows ! k then d\<lparr>d_checked_off := 1, d_completion_date := Some ?t\<rparr> else d)
               (deadlines db)"
    by (rule map_cong) (simp_all add: k(2) same_id_same_row [OF assms(1) hit])
  have "check_off_habit db task date now =
          (None, db\<lparr>deadlines :=
                   map (\<lambda>d. if d = ?rows ! k
                            then d\<lparr>d_checked_off := 1, d_completion_date := Some ?t\<rparr>
                            else d)
                     (deadlines db)\<rparr>)"
    by (simp add: check_off_habit_def Let_def i execute_check_off_def upd)
  with k show ?thesis by blast
qed

theorem check_off_habit_first_match_witness:
  "primary_key scenario_db
   \<and> (\<exists>d \<in> set (db_search_deadlines ''run'' scenario_db). encloses d 1704672000000000)
   \<and> check_off_habit scenario_db ''run'' (Some 1704672000000000) 0 =
       (None, scenario_db\<lparr>deadlines :=
          [(new_deadline ''run'' 1704067200000000 1704672000000000 1)
             \<lparr>d_checked_off := 1, d_completion_date := Some 1704672000000000\<rparr>,
           new_deadline ''run'' 1704672000000000 1705276800000000 2,
           new_deadline ''run'' 1705276800000000 1705881600000000 3,
           new_deadline ''run'' 1705881600000000 1706486400000000 4,
           new_deadline ''run'' 1706486400000000 1707091200000000 5]\<rparr>)"
proof -
  have pk: "primary_key scenario_db"
    by (simp add: scenario_db_eq primary_key_def new_deadline_def)
  have ex: "\<exists>d \<in> set (db_search_deadlines ''run'' scenario_db).
              encloses d (case Some 1704672000000000 of Some t \<Rightarrow> t | None \<Rightarrow> 0)"
    by (simp add: scenario_db_eq db_search_deadlines_def new_deadline_def encloses_def)
  from check_off_habit_first_match [OF pk ex]
  show ?thesis
    using pk ex
    by (simp add: scenario_db_eq db_search_deadlines_def new_deadline_def encloses_def
        check_off_habit_def execute_check_off_def)
qed

text \<open>Without an enclosing deadline the local \<open>id\<close> is read unassigned and nothing is written.\<close>

lemma check_off_habit_unmatched:
  assumes "\<forall>d \<in> set (db_search_deadlines task db).
             \<not> encloses d (case date of Some t \<Rightarrow> t | None \<Rightarrow> now)"
  shows "check_off_habit db task date now = (Some UnboundLocalError, db)"
  using assms by (simp add: check_off_habit_def Let_def check_off_scan_None [symmetric])

text \<open>
  C3.  The code at three instants no deadline encloses: 2024-03-01 (after the last
  deadline of the example), the microsecond before the first deadline, and a task without
  deadlines.  Each time \<open>check_off_habit\<close> raises \<open>UnboundLocalError\<close>, the
  undefined-reference error, and the store is unchanged.
\<close>

theorem check_off_habit_outside_schedule:
  "check_off_habit scenario_db ''run'' (Some 1709251200000000) 0 = (Some UnboundLocalError, scenario_db)
   \<and> check_off_habit scenario_db ''run'' (Some 1704067199999999) 0 = (Some UnboundLocalError, scenario_db)
   \<and> check_off_habit scenario_db ''swim'' (Some 1704672000000000) 0 = (Some UnboundLocalError, scenario_db)"
  by (simp add: check_off_habit_def scenario_db_eq db_search_deadlines_def new_deadline_def)

section \<open>Streak\<close>

lemma streak_loop_fold: "streak_loop rows s = fold max_streak_step rows s"
proof (induction rows arbitrary: s)
  case Nil
  show ?case by (cases s) simp
next
  case (Cons d rows)
  show ?case by (cases s) (simp add: Cons max_streak_step_def max_def)
qed

lemma streak_loop_append: "streak_loop (xs @ ys) s = streak_loop ys (streak_loop xs s)"
  by (simp add: streak_loop_fold)

lemma streak_loop_max_le: "m \<le> fst (streak_loop rows (m, r))"
proof (induction rows arbitrary: m r)
  case Nil
  show ?case by simp
next
  case (Cons d rows)
  show ?case
    using Cons [of "Suc r" "Suc r"] Cons [of m "Suc r"] Cons [of m 0]
    by auto
qed

lemma leading_Cons:
  "leading (d # rows) = (if d_checked_off d \<noteq> 0 then Suc (leading rows) else 0)"
  by (simp add: leading_def)

lemma leading_Nil: "leading [] = 0"
  by (simp add: leading_def)

lemma streak_loop_leading_le:
  "r \<le> m \<Longrightarrow> r + leading rows \<le> fst (streak_loop rows (m, r))"
proof (induction rows arbitrary: m r)
  case Nil
  then show ?case by (simp add: leading_Nil)
next
  case (Cons d rows)
  show ?case
  proof (cases "d_checked_off d \<noteq> 0")
    case True
    have "Suc r + leading rows \<le> fst (streak_loop rows (if m < Suc r then Suc r else m, Suc r))"
      by (rule Cons.IH) simp
    with True show ?thesis by (auto simp: leading_Cons split: if_splits)
  next
    case False
    have "m \<le> fst (streak_loop rows (m, 0))" by (rule streak_loop_max_le)
    with False Cons.prems show ?thesis by (simp add: leading_Cons)
  qed
qed

lemma is_run_Nil: "is_run [] i n \<longleftrightarrow> i = 0 \<and> n = 0"
  by (auto simp: is_run_def)

lemma is_run_Cons_Suc: "is_run (d # rows) (Suc i) n \<longleftrightarrow> is_run rows i n"
  by (simp add: is_run_def)

lemma is_run_Cons_0:
  "is_run (d # rows) 0 n \<longleftrightarrow> n = 0 \<or> (d_checked_off d \<noteq> 0 \<and> is_run rows 0 (n - 1))"
proof (cases n)
  case 0
  then show ?thesis by (simp add: is_run_def)
next
  case (Suc k)
  then show ?thesis
    by (auto simp: is_run_def less_Suc_eq_0_disj)
qed

lemma is_run_0_leading: "is_run rows 0 n \<Longrightarrow> n \<le> leading rows"
proof (induction rows arbitrary: n)
  case Nil
  then show ?case by (simp add: is_run_Nil)
next
  case (Cons d rows)
  then show ?case
    by (cases n) (auto simp: is_run_Cons_0 leading_Cons)
qed

lemma is_run_leading: "is_run rows 0 (leading rows)"
  by (induction rows) (simp_all add: is_run_Nil is_run_Cons_0 leading_Cons leading_Nil)

lemma is_run_le_streak:
  "r \<le> m \<Longrightarrow> is_run rows i n \<Longrightarrow> n \<le> fst (streak_loop rows (m, r))"
proof (induction rows arbitrary: m r i)
  case Nil
  then show ?case by (simp add: is_run_Nil)
next
  case (Cons d rows)
  show ?case
  proof (cases i)
    case 0
    with Cons.prems have "n \<le> leading (d # rows)" by (simp add: is_run_0_leading)
    also have "\<dots> \<le> r + leading (d # rows)" by simp
    also have "\<dots> \<le> fst (streak_loop (d # rows) (m, r))"
      by (rule streak_loop_leading_le) (rule Cons.prems)
    finally show ?thesis .
  next
    case (Suc k)
    with Cons.prems have run: "is_run rows k n" by (simp add: is_run_Cons_Suc)
    show ?thesis
    proof (cases "d_checked_off d \<noteq> 0")
      case True
      have "n \<le> fst (streak_loop rows (if m < Suc r then Suc r else m, Suc r))"
        by (rule Cons.IH [OF _ run]) simp
      with True show ?thesis by (auto split: if_splits)
    next
      case False
      have "n \<le> fst (streak_loop rows (m, 0))"
        by (rule Cons.IH [OF _ run]) simp
      with False show ?thesis by simp
    qed
  qed
qed

lemma streak_is_attained:
  "r \<le> m \<Longrightarrow>
     fst (streak_loop rows (m, r)) = m
   \<or> fst (streak_loop rows (m, r)) = r + leading rows
   \<or> (\<exists>i. is_run rows i (fst (streak_loop rows (m, r))))"
proof (induction rows arbitrary: m r)
  case Nil
  show ?case by simp
next
  case (Cons d rows)
  show ?case
  proof (cases "d_checked_off d \<noteq> 0")
    case True
    let ?m = "if m < Suc r then Suc r else m"
    let ?v = "fst (streak_loop rows (?m, Suc r))"
    have v: "fst (streak_loop (d # rows) (m, r)) = ?v" using True by simp
    have le: "Suc r + leading rows \<le> ?v"
      by (rule streak_loop_leading_le) simp
    have "?v = ?m \<or> ?v = Suc r + leading rows \<or> (\<exists>i. is_run rows i ?v)"
      by (rule Cons.IH) simp
    then consider "?v = ?m" | "?v = Suc r + leading rows" | i where "is_run rows i ?v"
      by blast
    then show ?thesis
    proof cases
      case 1
      then have "?v = m \<or> ?v = Suc r + leading rows" using le by (auto split: if_splits)
      then show ?thesis unfolding v using True by (auto simp: leading_Cons)
    next
      case 2
      then show ?thesis unfolding v using True by (simp add: leading_Cons)
    next
      case 3
      then have "is_run (d # rows) (Suc i) ?v" by (simp add: is_run_Cons_Suc)
      then show ?thesis unfolding v by blast
    qed
  next
    case False
    let ?v = "fst (streak_loop rows (m, 0))"
    have v: "fst (streak_loop (d # rows) (m, r)) = ?v" using False by simp
    have "?v = m \<or> ?v = 0 + leading rows \<or> (\<exists>i. is_run rows i ?v)"
      by (rule Cons.IH) simp
    then consider "?v = m" | "?v = leading rows" | i where "is_run rows i ?v"
      by auto
    then show ?thesis
    proof cases
      case 1
      then show ?thesis unfolding v by simp
    next
      case 2
      have "is_run (d # rows) (Suc 0) (leading rows)"
        by (simp add: is_run_Cons_Suc is_run_leading)
      then show ?thesis unfolding v 2 by blast
    next
      case 3
      then have "is_run (d # rows) (Suc i) ?v" by (simp add: is_run_Cons_Suc)
      then show ?thesis unfolding v by blast
    qed
  qed
qed

lemma streak_loop_all_checked:
  "\<forall>d \<in> set rows. d_checked_off d \<noteq> 0 \<Longrightarrow>
     streak_loop rows (r, r) = (r + length rows, r + length rows)"
  by (induction rows arbitrary: r) simp_all

lemma streak_loop_none_checked:
  "\<forall>d \<in> set rows. d_checked_off d = 0 \<Longrightarrow> fst (streak_loop rows (m, r)) = m"
  by (induction rows arbitrary: r) simp_all

lemma checked_db_eq:
  "checked_db =
     \<lparr>habits = [\<lparr>h_id = 1, h_task = ''run'', h_period = 7, h_start_date = 19723, h_duration = 30\<rparr>],
      deadlines =
        [(new_deadline ''run'' 1704067200000000 1704672000000000 1)
           \<lparr>d_checked_off := 1, d_completion_date := Some 1704100000000000\<rparr>,
         (new_deadline ''run'' 1704672000000000 1705276800000000 2)
           \<lparr>d_checked_off := 1, d_completion_date := Some 1704700000000000\<rparr>,
         new_deadline ''run'' 1705276800000000 1705881600000000 3,
         (new_deadline ''run'' 1705881600000000 1706486400000000 4)
           \<lparr>d_checked_off := 1, d_completion_date := Some 1705900000000000\<rparr>,
         (new_deadline ''run'' 1706486400000000 1707091200000000 5)
           \<lparr>d_checked_off := 1, d_completion_date := Some 1706500000000000\<rparr>],
      habits_seq = 1, deadlines_seq = 5\<rparr>"
  by (simp add: checked_db_def scenario_db_eq check_off_habit_def db_search_deadlines_def
      execute_check_off_def new_deadline_def)

text \<open>
  C5.  \<open>get_streak\<close> computes what the algorithm of the specification computes on the task's
  deadlines in scan order, and that number is the length of the longest run of consecutive
  checked deadlines: some run has this length and no run is longer.  If no deadline is
  checked it is 0; if all are checked it is the number of deadlines.  The witness is the
  pattern 1, 1, 0, 1, 1, whose streak is 2.
\<close>

theorem get_streak_longest_run:
  "get_streak db task = max_streak_spec (db_search_deadlines task db)
   \<and> (\<exists>i. is_run (db_search_deadlines task db) i (get_streak db task))
   \<and> (\<forall>i n. is_run (db_search_deadlines task db) i n \<longrightarrow> n \<le> get_streak db task)
   \<and> ((\<forall>d \<in> set (db_search_deadlines task db). d_checked_off d = 0) \<longrightarrow> get_streak db task = 0)
   \<and> ((\<forall>d \<in> set (db_search_deadlines task db). d_checked_off d \<noteq> 0) \<longrightarrow>
        get_streak db task = length (db_search_deadlines task db))"
proof -
  let ?rows = "db_search_deadlines task db"
  have 1: "get_streak db task = max_streak_spec ?rows"
    by (simp add: get_streak_def max_streak_spec_def streak_loop_fold)
  have "fst (streak_loop ?rows (0, 0)) = 0
      \<or> fst (streak_loop ?rows (0, 0)) = 0 + leading ?rows
      \<or> (\<exists>i. is_run ?rows i (fst (streak_loop ?rows (0, 0))))"
    by (rule streak_is_attained) simp
  moreover have "is_run ?rows 0 0" by (simp add: is_run_def)
  moreover have "is_run ?rows 0 (leading ?rows)" by (rule is_run_leading)
  ultimately have 2: "\<exists>i. is_run ?rows i (get_streak db task)"
    unfolding get_streak_def by (metis add_0)
  have 3: "\<forall>i n. is_run ?rows i n \<longrightarrow> n \<le> get_streak db task"
    unfolding get_streak_def using is_run_le_streak [of 0 0 ?rows] by blast
  have 4: "(\<forall>d \<in> set ?rows. d_checked_off d = 0) \<longrightarrow> get_streak db task = 0"
    by (simp add: get_streak_def streak_loop_none_checked)
  have 5: "(\<forall>d \<in> set ?rows. d_checked_off d \<noteq> 0) \<longrightarrow> get_streak db task = length ?rows"
    using streak_loop_all_checked [of ?rows 0] by (simp add: get_streak_def)
  from 1 2 3 4 5 show ?thesis by blast
qed

theorem get_streak_longest_run_witness:
  "map d_checked_off (db_search_deadlines ''run'' checked_db) = [1, 1, 0, 1, 1]
   \<and> get_streak checked_db ''run'' = 2
   \<and> max_streak_spec (db_search_deadlines ''run'' checked_db) = 2
   \<and> is_run (db_search_deadlines ''run'' checked_db) 3 2
   \<and> \<not> is_run (db_search_deadlines ''run'' checked_db) 0 3
   \<and> map d_checked_off (db_search_deadlines ''run'' scenario_db) = [0, 0, 0, 0, 0]
   \<and> get_streak scenario_db ''run'' = 0"
proof -
  let ?rows = "db_search_deadlines ''run'' checked_db"
  have a: "get_streak checked_db ''run'' = 2"
    by (simp add: get_streak_def checked_db_eq db_search_deadlines_def new_deadline_def)
  have b: "is_run ?rows 3 2"
    by (simp add: is_run_def checked_db_eq db_search_deadlines_def new_deadline_def
        less_Suc_eq_0_disj numeral_2_eq_2 numeral_3_eq_3)
  have c: "\<forall>d \<in> set (db_search_deadlines ''run'' scenario_db). d_checked_off d = 0"
    by (simp add: scenario_db_eq db_search_deadlines_def new_deadline_def)
  have d: "map d_checked_off ?rows = [1, 1, 0, 1, 1]"
    by (simp add: checked_db_eq db_search_deadlines_def new_deadline_def)
  note thm1 = get_streak_longest_run [of checked_db "''run''"]
  note thm2 = get_streak_longest_run [of scenario_db "''run''"]
  from thm1 have e: "max_streak_spec ?rows = 2"
    using a by simp
  from thm1 have "\<forall>i n. is_run ?rows i n \<longrightarrow> n \<le> get_streak checked_db ''run''"
    by blast
  then have f: "\<not> is_run ?rows 0 3"
    unfolding a by fastforce
  from thm2 c have g: "get_streak scenario_db ''run'' = 0"
    by blast
  have h: "map d_checked_off (db_search_deadlines ''run'' scenario_db) = [0, 0, 0, 0, 0]"
    by (simp add: scenario_db_eq db_search_deadlines_def new_deadline_def)
  from a b d e f g h show ?thesis by blast
qed

text \<open>
  C6.  When all deadlines of a task are checked, appending one more checked deadline of the
  task raises \<open>get_streak\<close> by exactly 1.  Appending an unchecked deadline of the task
  never lowers \<open>get_streak\<close>.
\<close>

theorem get_streak_append:
  "(d_task d = task \<and> d_checked_off d \<noteq> 0
      \<and> (\<forall>x \<in> set (db_search_deadlines task db). d_checked_off x \<noteq> 0)
      \<longrightarrow> get_streak (db\<lparr>deadlines := deadlines db @ [d]\<rparr>) task = get_streak db task + 1)
   \<and> (d_task d = task \<and> d_checked_off d = 0
      \<longrightarrow> get_streak db task \<le> get_streak (db\<lparr>deadlines := deadlines db @ [d]\<rparr>) task)"
proof (intro conjI impI)
  assume a: "d_task d = task \<and> d_checked_off d \<noteq> 0
      \<and> (\<forall>x \<in> set (db_search_deadlines task db). d_checked_off x \<noteq> 0)"
  let ?rows = "db_search_deadlines task db"
  have rows: "db_search_deadlines task (db\<lparr>deadlines := deadlines db @ [d]\<rparr>) = ?rows @ [d]"
    using a by (simp add: db_search_deadlines_def)
  have all: "streak_loop ?rows (0, 0) = (0 + length ?rows, 0 + length ?rows)"
    by (rule streak_loop_all_checked) (use a in blast)
  show "get_streak (db\<lparr>deadlines := deadlines db @ [d]\<rparr>) task = get_streak db task + 1"
    using a by (simp add: get_streak_def rows streak_loop_append all)
next
  assume a: "d_task d = task \<and> d_checked_off d = 0"
  let ?rows = "db_search_deadlines task db"
  have rows: "db_search_deadlines task (db\<lparr>deadlines := deadlines db @ [d]\<rparr>) = ?rows @ [d]"
    using a by (simp add: db_search_deadlines_def)
  obtain m r where s: "streak_loop ?rows (0, 0) = (m, r)" by (cases "streak_loop ?rows (0, 0)")
  show "get_streak db task \<le> get_streak (db\<lparr>deadlines := deadlines db @ [d]\<rparr>) task"
    using a by (simp add: get_streak_def rows streak_loop_append s)
qed

theorem get_streak_append_witness:
  "get_streak
     (scenario_db\<lparr>deadlines :=
        map (\<lambda>d. d\<lparr>d_checked_off := 1\<rparr>) (deadlines scenario_db)
        @ [(new_deadline ''run'' 1707091200000000 1707696000000000 6)\<lparr>d_checked_off := 1\<rparr>]\<rparr>)
     ''run'' = 6
   \<and> get_streak checked_db ''run''
       \<le> get_streak
           (checked_db\<lparr>deadlines := deadlines checked_db
              @ [new_deadline ''run'' 1707091200000000 1707696000000000 6]\<rparr>) ''run''"
proof -
  let ?full = "scenario_db\<lparr>deadlines := map (\<lambda>d. d\<lparr>d_checked_off := 1\<rparr>) (deadlines scenario_db)\<rparr>"
  let ?d1 = "(new_deadline ''run'' 1707091200000000 1707696000000000 6)\<lparr>d_checked_off := 1\<rparr>"
  let ?d0 = "new_deadline ''run'' 1707091200000000 1707696000000000 6"
  have full: "get_streak ?full ''run'' = 5"
    by (simp add: get_streak_def scenario_db_eq db_search_deadlines_def new_deadline_def)
  have hyp1: "d_task ?d1 = ''run'' \<and> d_checked_off ?d1 \<noteq> 0
      \<and> (\<forall>x \<in> set (db_search_deadlines ''run'' ?full). d_checked_off x \<noteq> 0)"
    by (simp add: scenario_db_eq db_search_deadlines_def new_deadline_def)
  have hyp0: "d_task ?d0 = ''run'' \<and> d_checked_off ?d0 = 0"
    by (simp add: new_deadline_def)
  from get_streak_append [of ?d1 "''run''" ?full] hyp1 full
  have 1: "get_streak (?full\<lparr>deadlines := deadlines ?full @ [?d1]\<rparr>) ''run'' = 6"
    by simp
  from get_streak_append [of ?d0 "''run''" checked_db] hyp0
  have 2: "get_streak checked_db ''run''
       \<le> get_streak (checked_db\<lparr>deadlines := deadlines checked_db @ [?d0]\<rparr>) ''run''"
    by blast
  from 1 2 show ?thesis by simp
qed

section \<open>Success rate\<close>

lemma get_success_rate_eq:
  "get_success_rate db task duration now =
     (if window_in_calendar now duration
      then Inr (success_rate_spec (db_search_deadlines task db) (window_days duration) now)
      else Inl OverflowError)"
proof -
  have w: "(case duration of None \<Rightarrow> 30 | Some n \<Rightarrow> if n \<noteq> 0 then n else 30) = window_days duration"
    by (simp add: window_days_def)
  show ?thesis
    unfolding get_success_rate_def success_rate_spec_def Let_def w py_truediv_def
      window_in_calendar_def timedelta_def datetime_sub_def
    by (simp add: in_window_def [abs_def])
qed

text \<open>
  C4 (as stated, refuted).  On the checked example, on 2024-01-20 and with a window of
  800000 days, the deadlines of the task in the window are the first three, two of them
  checked off, so the rate of the claim is 2/3; \<open>get_success_rate\<close> raises
  \<open>OverflowError\<close> instead, because the window would start before the year 1.
\<close>

theorem get_success_rate_window_overflow:
  "get_success_rate checked_db ''run'' (Some 800000) 1705708800000000 = Inl OverflowError
   \<and> success_rate_spec (db_search_deadlines ''run'' checked_db) 800000 1705708800000000 = 2 / 3"
  by (simp add: get_success_rate_def timedelta_def datetime_sub_def datetime_min_def
      success_rate_spec_def in_window_def checked_db_eq db_search_deadlines_def
      new_deadline_def us_per_day_def)

text \<open>
  C4 (amended).  The window length is the given number of days, and 30 days when \<open>None\<close> or
  0 is given.  When the window can be computed, that is, when its length is a day count
  \<open>timedelta\<close> accepts and its start, that many days before \<open>now\<close>, is a datetime of the
  calendar, \<open>get_success_rate\<close> takes the task's deadlines whose end or whose beginning
  lies between the start of the window and \<open>now\<close>, and returns the sum of their
  \<open>checked_off\<close> flags divided by their number, or 0 when there is none, without raising.
  Otherwise it raises \<open>OverflowError\<close>.
\<close>

theorem get_success_rate_window:
  "(window_in_calendar now duration \<longrightarrow>
      get_success_rate db task duration now =
        Inr (success_rate_spec (db_search_deadlines task db) (window_days duration) now))
   \<and> (\<not> window_in_calendar now duration \<longrightarrow>
      get_success_rate db task duration now = Inl OverflowError)"
  by (simp add: get_success_rate_eq)

theorem get_success_rate_window_witness:
  "window_in_calendar 1705708800000000 (Some 7)
   \<and> window_days (Some 7) = 7
   \<and> get_success_rate checked_db ''run'' (Some 7) 1705708800000000 = Inr (1 / 2)
   \<and> success_rate_spec (db_search_deadlines ''run'' checked_db) 7 1705708800000000 = 1 / 2
   \<and> \<not> window_in_calendar 1705708800000000 (Some 800000)
   \<and> get_success_rate checked_db ''run'' (Some 800000) 1705708800000000 = Inl OverflowError"
proof -
  have a: "window_in_calendar 1705708800000000 (Some 7)"
    and b: "\<not> window_in_calendar 1705708800000000 (Some 800000)"
    by (simp_all add: window_in_calendar_def window_days_def datetime_min_def datetime_max_def
        us_per_day_def)
  have c: "window_days (Some 7) = 7"
    by (simp add: window_days_def)
  have d: "success_rate_spec (db_search_deadlines ''run'' checked_db) 7 1705708800000000 = 1 / 2"
    by (simp add: success_rate_spec_def in_window_def checked_db_eq db_search_deadlines_def
        new_deadline_def us_per_day_def)
  from get_success_rate_window [of 1705708800000000 "Some 7" checked_db "''run''"]
       get_success_rate_window [of 1705708800000000 "Some 800000" checked_db "''run''"]
       a b c d
  show ?thesis by simp
qed

lemma sum_list_flags:
  "\<forall>d \<in> set rows. d_checked_off d = 0 \<or> d_checked_off d = 1 \<Longrightarrow>
     0 \<le> sum_list (map d_checked_off rows) \<and> sum_list (map d_checked_off rows) \<le> int (length rows)"
  by (induction rows) auto

lemma success_rate_spec_bounds:
  assumes "\<forall>d \<in> set rows. d_checked_off d = 0 \<or> d_checked_off d = 1"
  shows "0 \<le> success_rate_spec rows days now \<and> success_rate_spec rows days now \<le> 1"
proof -
  let ?f = "filter (in_window (now - days * us_per_day) now) rows"
  have "\<forall>d \<in> set ?f. d_checked_off d = 0 \<or> d_checked_off d = 1"
    using assms by simp
  from sum_list_flags [OF this]
  have s: "0 \<le> sum_list (map d_checked_off ?f)" "sum_list (map d_checked_off ?f) \<le> int (length ?f)"
    by blast+
  show ?thesis
  proof (cases "?f = []")
    case True
    then show ?thesis by (simp add: success_rate_spec_def)
  next
    case False
    then have pos: "0 < real (length ?f)" by simp
    have "real_of_int (sum_list (map d_checked_off ?f)) \<le> real (length ?f)"
      using s(2) by linarith
    moreover have "0 \<le> real_of_int (sum_list (map d_checked_off ?f))"
      using s(1) by simp
    ultimately show ?thesis
      using False pos by (simp add: success_rate_spec_def Let_def)
  qed
qed

text \<open>
  C7 (as stated, refuted).  On the checked example, whose flags are all 0 or 1, on
  2000-01-01 and with a window of 800000 days, no deadline of the task lies in the window
  (they all begin in 2024), and \<open>get_success_rate\<close> does not return 0: it raises
  \<open>OverflowError\<close>, because the window would start before the year 1.
\<close>

theorem get_success_rate_empty_window_overflow:
  "map d_checked_off (db_search_deadlines ''run'' checked_db) = [1, 1, 0, 1, 1]
   \<and> filter (in_window (946684800000000 - 800000 * us_per_day) 946684800000000)
        (db_search_deadlines ''run'' checked_db) = []
   \<and> get_success_rate checked_db ''run'' (Some 800000) 946684800000000 = Inl OverflowError"
  by (simp add: get_success_rate_def timedelta_def datetime_sub_def datetime_min_def
      in_window_def checked_db_eq db_search_deadlines_def new_deadline_def us_per_day_def)

text \<open>
  C7 (amended).  When every \<open>checked_off\<close> flag of the task is 0 or 1 and the window can
  be computed (its length is a day count \<open>timedelta\<close> accepts and its start is a datetime
  of the calendar), \<open>get_success_rate\<close> returns a number between 0 and 1, both included,
  and it returns 0 when no deadline of the task is in the window.  Whatever the window,
  a number that \<open>get_success_rate\<close> returns lies between 0 and 1.
\<close>

theorem get_success_rate_bounds:
  assumes "\<forall>d \<in> set (db_search_deadlines task db). d_checked_off d = 0 \<or> d_checked_off d = 1"
  shows "(window_in_calendar now duration \<longrightarrow>
           (\<exists>r. get_success_rate db task duration now = Inr r \<and> 0 \<le> r \<and> r \<le> 1
              \<and> ((\<forall>d \<in> set (db_search_deadlines task db).
                     \<not> in_window (now - window_days duration * us_per_day) now d) \<longrightarrow> r = 0)))
         \<and> (\<forall>r. get_success_rate db task duration now = Inr r \<longrightarrow> 0 \<le> r \<and> r \<le> 1)"
proof -
  let ?rows = "db_search_deadlines task db"
  let ?r = "success_rate_spec ?rows (window_days duration) now"
  have "(\<forall>d \<in> set ?rows. \<not> in_window (now - window_days duration * us_per_day) now d) \<longrightarrow> ?r = 0"
    by (simp add: success_rate_spec_def filter_empty_conv)
  with success_rate_spec_bounds [OF assms, of "window_days duration" now]
  show ?thesis by (simp add: get_success_rate_eq)
qed

theorem get_success_rate_bounds_witness:
  "map d_checked_off (db_search_deadlines ''run'' checked_db) = [1, 1, 0, 1, 1]
   \<and> window_in_calendar 1705708800000000 None
   \<and> get_success_rate checked_db ''run'' None 1705708800000000 = Inr (2 / 3)
   \<and> window_in_calendar 1800000000000000 (Some 7)
   \<and> filter (in_window (1800000000000000 - window_days (Some 7) * us_per_day) 1800000000000000)
         (db_search_deadlines ''run'' checked_db) = []
   \<and> get_success_rate checked_db ''run'' (Some 7) 1800000000000000 = Inr 0"
proof -
  have fl: "map d_checked_off (db_search_deadlines ''run'' checked_db) = [1, 1, 0, 1, 1]"
    by (simp add: checked_db_eq db_search_deadlines_def new_deadline_def)
  have flags: "\<forall>d \<in> set (db_search_deadlines ''run'' checked_db). d_checked_off d = 0 \<or> d_checked_off d = 1"
    by (simp add: checked_db_eq db_search_deadlines_def new_deadline_def)
  have w: "window_in_calendar 1705708800000000 None" "window_in_calendar 1800000000000000 (Some 7)"
    by (simp_all add: window_in_calendar_def window_days_def datetime_min_def datetime_max_def
        us_per_day_def)
  have a: "get_success_rate checked_db ''run'' None 1705708800000000 = Inr (2 / 3)"
    by (simp add: get_success_rate_def py_truediv_def timedelta_def datetime_sub_def
        datetime_min_def datetime_max_def
        checked_db_eq db_search_deadlines_def new_deadline_def us_per_day_def)
  have out: "\<forall>d \<in> set (db_search_deadlines ''run'' checked_db).
         \<not> in_window (1800000000000000 - window_days (Some 7) * us_per_day) 1800000000000000 d"
    by (simp add: checked_db_eq db_search_deadlines_def new_deadline_def in_window_def
        window_days_def us_per_day_def)
  then have none: "filter (in_window (1800000000000000 - window_days (Some 7) * us_per_day) 1800000000000000)
         (db_search_deadlines ''run'' checked_db) = []"
    by (simp add: filter_empty_conv)
  from get_success_rate_bounds [OF flags, of 1800000000000000 "Some 7"] out w(2)
  have b: "get_success_rate checked_db ''run'' (Some 7) 1800000000000000 = Inr 0"
    by auto
  from fl a none b w show ?thesis by blast
qed

section \<open>Listing\<close>

lemma mixed_db_eq:
  "mixed_db =
     \<lparr>habits =
        [\<lparr>h_id = 1, h_task = ''nap'', h_period = 0, h_start_date = 19723, h_duration = 30\<rparr>,
         \<lparr>h_id = 2, h_task = ''run'', h_period = 7, h_start_date = 19723, h_duration = - 30\<rparr>],
      deadlines = [], habits_seq = 2, deadlines_seq = 0\<rparr>"
  by (simp add: mixed_db_def insert_habit_def create_tables_def py_range_def sqlite_int_def
      execute_habit_insert_def)

text \<open>
  C9.  Without a filter, and with the filter 0, \<open>list_habits\<close> returns all habits.  No
  filter value selects the habits of period 0: in a store that holds a habit of period 0
  and a habit of another period, the result of \<open>list_habits\<close> is never the list of the
  habits of period 0, whatever the filter.
\<close>

theorem list_habits_falsy_filter:
  "list_habits db None = Inr (habits db)
   \<and> list_habits db (Some 0) = Inr (habits db)
   \<and> (\<forall>habit_period.
        (\<exists>h \<in> set (habits db). h_period h = 0) \<and> (\<exists>h \<in> set (habits db). h_period h \<noteq> 0)
        \<longrightarrow> list_habits db habit_period \<noteq> Inr (filter (\<lambda>h. h_period h = 0) (habits db)))"
proof (intro conjI allI impI)
  show "list_habits db None = Inr (habits db)"
    by (simp add: list_habits_def db_search_habits_def)
  show "list_habits db (Some 0) = Inr (habits db)"
    by (simp add: list_habits_def db_search_habits_def)
next
  fix habit_period
  assume a: "(\<exists>h \<in> set (habits db). h_period h = 0) \<and> (\<exists>h \<in> set (habits db). h_period h \<noteq> 0)"
  then obtain h0 h1 where h0: "h0 \<in> set (habits db)" "h_period h0 = 0"
    and h1: "h1 \<in> set (habits db)" "h_period h1 \<noteq> 0" by blast
  show "list_habits db habit_period \<noteq> Inr (filter (\<lambda>h. h_period h = 0) (habits db))"
  proof
    assume eq: "list_habits db habit_period = Inr (filter (\<lambda>h. h_period h = 0) (habits db))"
    show False
    proof (cases "habit_period = None \<or> habit_period = Some 0")
      case True
      then have "list_habits db habit_period = Inr (habits db)"
        by (auto simp: list_habits_def db_search_habits_def)
      with eq have "h1 \<in> set (filter (\<lambda>h. h_period h = 0) (habits db))"
        using h1(1) by simp
      with h1(2) show False by simp
    next
      case False
      then obtain p where p: "habit_period = Some p" "p \<noteq> 0" by (cases habit_period) auto
      show False
      proof (cases "sqlite_int p")
        case True
        with p have "list_habits db habit_period = Inr (filter (\<lambda>h. h_period h = p) (habits db))"
          by (simp add: list_habits_def db_search_habits_period_def)
        with eq have "h0 \<in> set (filter (\<lambda>h. h_period h = p) (habits db))"
          using h0 by simp
        with h0(2) p(2) show False by simp
      next
        case False
        with p have "list_habits db habit_period = Inl OverflowError"
          by (simp add: list_habits_def)
        with eq show False by simp
      qed
    qed
  qed
qed

theorem list_habits_falsy_filter_witness:
  "(\<exists>h \<in> set (habits mixed_db). h_period h = 0) \<and> (\<exists>h \<in> set (habits mixed_db). h_period h \<noteq> 0)
   \<and> map_sum id (map h_period) (list_habits mixed_db (Some 0)) = Inr [0, 7]
   \<and> map_sum id (map h_period) (list_habits mixed_db None) = Inr [0, 7]
   \<and> list_habits mixed_db (Some 0) \<noteq> Inr (filter (\<lambda>h. h_period h = 0) (habits mixed_db))
   \<and> list_habits mixed_db (Some 7) \<noteq> Inr (filter (\<lambda>h. h_period h = 0) (habits mixed_db))"
proof -
  have hyp: "(\<exists>h \<in> set (habits mixed_db). h_period h = 0)
      \<and> (\<exists>h \<in> set (habits mixed_db). h_period h \<noteq> 0)"
    by (simp add: mixed_db_eq)
  have hs: "map h_period (habits mixed_db) = [0, 7]"
    by (simp add: mixed_db_eq)
  from list_habits_falsy_filter [of mixed_db] hyp hs
  show ?thesis by auto
qed

section \<open>Analytics of a task without deadlines\<close>

text \<open>
  C10 (as stated, refuted).  The task \<open>ghost\<close> has no stored deadline, and on 2024-01-20
  with a window of 800000 days \<open>get_success_rate\<close> does not return 0: it raises
  \<open>OverflowError\<close> when it computes the start of the window, before it looks at the
  deadlines.
\<close>

theorem get_success_rate_without_intervals_overflow:
  "db_search_deadlines ''ghost'' mixed_db = []
   \<and> get_success_rate mixed_db ''ghost'' (Some 800000) 1705708800000000 = Inl OverflowError"
  by (simp add: get_success_rate_def timedelta_def datetime_sub_def datetime_min_def
      mixed_db_eq db_search_deadlines_def us_per_day_def)

text \<open>
  C10 (amended).  For a task without stored deadlines, whatever the habits table holds,
  \<open>get_streak\<close> returns 0 without raising, and \<open>get_success_rate\<close> returns 0 without
  raising when the window can be computed (its length is a day count \<open>timedelta\<close> accepts
  and its start is a datetime of the calendar) and raises \<open>OverflowError\<close> otherwise.  A
  task that was never created and a habit without deadlines give the same results.
\<close>

theorem analytics_without_intervals:
  assumes "db_search_deadlines task db = []"
  shows "\<forall>hs. get_streak (db\<lparr>habits := hs\<rparr>) task = 0
              \<and> get_success_rate (db\<lparr>habits := hs\<rparr>) task duration now =
                  (if window_in_calendar now duration then Inr 0 else Inl OverflowError)"
proof
  fix hs
  have rows: "db_search_deadlines task (db\<lparr>habits := hs\<rparr>) = []"
    using assms by (simp add: db_search_deadlines_def)
  have "get_streak (db\<lparr>habits := hs\<rparr>) task = 0"
    using rows by (simp add: get_streak_def)
  moreover have "get_success_rate (db\<lparr>habits := hs\<rparr>) task duration now =
                  (if window_in_calendar now duration then Inr 0 else Inl OverflowError)"
    unfolding get_success_rate_eq rows by (simp add: success_rate_spec_def)
  ultimately show "get_streak (db\<lparr>habits := hs\<rparr>) task = 0
              \<and> get_success_rate (db\<lparr>habits := hs\<rparr>) task duration now =
                  (if window_in_calendar now duration then Inr 0 else Inl OverflowError)" ..
qed

theorem analytics_without_intervals_witness:
  "db_search_deadlines ''ghost'' mixed_db = []
   \<and> db_search_deadlines ''run'' mixed_db = []
   \<and> ''ghost'' \<notin> set (map h_task (habits mixed_db))
   \<and> ''run'' \<in> set (map h_task (habits mixed_db))
   \<and> window_in_calendar 1705708800000000 (Some 7)
   \<and> window_in_calendar 1705708800000000 None
   \<and> get_streak mixed_db ''ghost'' = 0
   \<and> get_success_rate mixed_db ''ghost'' (Some 7) 1705708800000000 = Inr 0
   \<and> get_streak mixed_db ''run'' = 0
   \<and> get_success_rate mixed_db ''run'' None 1705708800000000 = Inr 0"
proof -
  have g: "db_search_deadlines ''ghost'' mixed_db = []"
    by (simp add: mixed_db_eq db_search_deadlines_def)
  have r: "db_search_deadlines ''run'' mixed_db = []"
    by (simp add: mixed_db_eq db_search_deadlines_def)
  have k: "''ghost'' \<notin> set (map h_task (habits mixed_db))" "''run'' \<in> set (map h_task (habits mixed_db))"
    by (simp_all add: mixed_db_eq)
  have w: "window_in_calendar 1705708800000000 (Some 7)" "window_in_calendar 1705708800000000 None"
    by (simp_all add: window_in_calendar_def window_days_def datetime_min_def datetime_max_def
        us_per_day_def)
  have same: "mixed_db\<lparr>habits := habits mixed_db\<rparr> = mixed_db" by simp
  from analytics_without_intervals [OF g, of "Some 7" 1705708800000000, THEN spec, of "habits mixed_db"]
       analytics_without_intervals [OF r, of None 1705708800000000, THEN spec, of "habits mixed_db"]
       g r k w
  show ?thesis unfolding same by simp
qed

end
